theory Spec2Isabelle
  imports Main
begin

section \<open>Data model of the user-center service\<close>

text \<open>
  The service keeps three tables behind the ORM client: users, user sessions and login
  logs. Each table is a list of rows. \<open>findUnique\<close> on the primary key returns the row
  of that id; which of several matching rows a \<open>findFirst\<close> without \<open>orderBy\<close> returns is
  the database's choice, a parameter below. Role and status are the
  free-form strings the source compares against (\<open>'active'\<close>, \<open>'blocked'\<close>, \<open>'admin'\<close>,
  \<open>'superadmin'\<close>). Times are milliseconds since the epoch. The columns that none of the
  modelled operations reads or writes (products, createdAt, updatedAt) are left out.
\<close>

record user =
  uid :: nat
  username :: string
  email :: string
  passwordHash :: string
  nickname :: "string option"
  avatar :: "string option"
  role :: string
  status :: string
  source :: string
  disabledRemark :: "string option"
  lastLoginAt :: "int option"

record userSession =
  s_userId :: nat
  s_token :: string
  s_expiresAt :: int
  s_ipAddress :: "string option"
  s_userAgent :: "string option"
  s_deviceId :: "string option"

text \<open>
  The messages of the source are Chinese string literals; each constructor stands for one
  literal, named by its meaning, with the place where the source writes it.
  \<^item> \<open>M_bad_credentials\<close>: thrown by \<open>UserModel.login\<close> for an unknown user and for a
    wrong password (the same literal in both places); also the fallback of the login route.
  \<^item> \<open>M_user_disabled\<close>: thrown by \<open>UserModel.login\<close> when the status is not active.
  \<^item> \<open>M_user_not_found\<close>: thrown by \<open>getUserInfo\<close>, \<open>deleteUser\<close>; also the text of the
    login log of an unknown user.
  \<^item> \<open>M_wrong_password\<close>, \<open>M_login_ok\<close>: texts of login logs.
  \<^item> \<open>M_username_exists\<close>, \<open>M_email_registered\<close>: thrown by \<open>createUser\<close>, \<open>updateUser\<close>.
  \<^item> \<open>M_no_token\<close>, \<open>M_bad_token\<close>, \<open>M_user_missing_or_disabled\<close>, \<open>M_session_invalid\<close>,
    \<open>M_jwt_invalid\<close>, \<open>M_jwt_expired\<close>, \<open>M_server_error\<close>: the replies of \<open>authJWT\<close>.
  \<^item> \<open>M_fields_required\<close>, \<open>M_password_short\<close>: validation replies of the register
    route; \<open>M_login_fields_required\<close>: validation reply of the login route.
  \<^item> \<open>M_both_passwords_required\<close>, \<open>M_new_password_short\<close>, \<open>M_current_password_wrong\<close>,
    \<open>M_password_changed\<close>: replies of change-password.
  \<^item> \<open>M_invalid_user_id\<close>, \<open>M_cannot_modify_superadmin\<close>, \<open>M_remark_required\<close>,
    \<open>M_nothing_to_update\<close>: replies of the admin update route.
  \<^item> \<open>M_forbidden\<close>: the reply of \<open>authorizeRoles\<close>.
  \<^item> \<open>M_runtime s\<close>: the message of an error raised by the runtime or a library, \<open>s\<close> a
    label of it (not its literal text).
\<close>

datatype msg =
    M_bad_credentials
  | M_user_disabled
  | M_user_not_found
  | M_wrong_password
  | M_login_ok
  | M_username_exists
  | M_email_registered
  | M_no_token
  | M_bad_token
  | M_user_missing_or_disabled
  | M_session_invalid
  | M_jwt_invalid
  | M_jwt_expired
  | M_server_error
  | M_fields_required
  | M_login_fields_required
  | M_password_short
  | M_both_passwords_required
  | M_new_password_short
  | M_current_password_wrong
  | M_password_changed
  | M_invalid_user_id
  | M_cannot_modify_superadmin
  | M_remark_required
  | M_nothing_to_update
  | M_forbidden
  | M_runtime string

record userLoginLog =
  l_userId :: "nat option"
  l_username :: string
  l_ipAddress :: "string option"
  l_userAgent :: "string option"
  l_success :: bool
  l_message :: msg

record store =
  users :: "user list"
  sessions :: "userSession list"
  loginLogs :: "userLoginLog list"
  nextId :: nat

record loginInfo =
  ipAddress :: "string option"
  userAgent :: "string option"
  deviceId :: "string option"

text \<open>The payload that \<open>login\<close> signs into the token, and that \<open>jwt.verify\<close> decodes.\<close>

record claims =
  c_userId :: nat
  c_username :: string
  c_role :: string

text \<open>The projection of a user row that \<open>authJWT\<close> selects and \<open>login\<close> returns.\<close>

record identity =
  i_id :: nat
  i_username :: string
  i_email :: string
  i_nickname :: "string option"
  i_avatar :: "string option"
  i_role :: string
  i_status :: string

text \<open>
  What the service calls and does not define is a parameter of the model:
  \<^item> \<open>bcrypt.compare\<close> and \<open>bcrypt.hash\<close> (with its salt);
  \<^item> \<open>jwt.sign\<close> (claims, secret, \<open>expiresIn\<close>, issue time; \<open>None\<close> when it throws) and
    \<open>jwt.verify\<close> (token, secret, current time), whose errors are told apart by name in
    the \<open>catch\<close> of \<open>authJWT\<close>;
  \<^item> \<open>db_pick\<close>, the choice of the database among the rows that match a \<open>findFirst\<close>
    (an index into the list of matching rows, taken modulo its length);
  \<^item> \<open>session_accepts\<close>, whether the session table, holding the given rows, accepts a new
    row (the schema with its unique keys and column ranges is not part of the source);
  \<^item> \<open>localTime\<close> and \<open>utcTime\<close>, the conversions \<open>LocalTime(t)\<close> and \<open>UTC(t)\<close> of the
    runtime's time zone, on which \<open>getHours\<close> and \<open>setHours\<close> work.
\<close>

datatype jwt_error = JsonWebTokenError | TokenExpiredError | OtherJwtError

record externals =
  bcrypt_compare :: "string \<Rightarrow> string \<Rightarrow> bool"
  bcrypt_hash :: "string \<Rightarrow> string"
  jwt_sign :: "claims \<Rightarrow> string \<Rightarrow> string \<Rightarrow> int \<Rightarrow> string option"
  jwt_verify :: "string \<Rightarrow> string \<Rightarrow> int \<Rightarrow> jwt_error + claims"
  db_pick :: "user list \<Rightarrow> nat"
  session_accepts :: "userSession list \<Rightarrow> userSession \<Rightarrow> bool"
  localTime :: "int \<Rightarrow> int"
  utcTime :: "int \<Rightarrow> int"

text \<open>The two environment variables read by the service.\<close>

record config =
  JWT_SECRET :: string
  JWT_EXPIRES_IN :: string

text \<open>What a \<open>throw\<close> carries: an \<open>Error\<close> with one of the messages above.\<close>

datatype exn = Error msg

fun message :: "exn \<Rightarrow> msg" where
  "message (Error m) = m"

definition identity_of :: "user \<Rightarrow> identity" where
  "identity_of u =
     \<lparr>i_id = uid u, i_username = username u, i_email = email u, i_nickname = nickname u,
      i_avatar = avatar u, i_role = role u, i_status = status u\<rparr>"

section \<open>The user model (models/user.model.js)\<close>

text \<open>
  \<open>saveLoginLog\<close> appends one row to the login log; the source swallows a failure of the
  write, so the call never throws.
\<close>

definition saveLoginLog ::
  "nat option \<Rightarrow> string \<Rightarrow> loginInfo \<Rightarrow> bool \<Rightarrow> msg \<Rightarrow> store \<Rightarrow> store" where
  "saveLoginLog userId uname info success m st =
     st\<lparr>loginLogs := loginLogs st @
        [\<lparr>l_userId = userId, l_username = uname, l_ipAddress = ipAddress info,
          l_userAgent = userAgent info, l_success = success, l_message = m\<rparr>]\<rparr>"

text \<open>
  \<open>process.env.JWT_EXPIRES_IN.match(/\d+/)\<close>: the first maximal run of decimal digits, or
  \<open>null\<close> when the string has none (destructuring \<open>null\<close> is a TypeError).
  \<open>parseInt\<close> of a run of digits is its decimal value (taken exactly here; the source
  holds it in a double).
\<close>

definition is_digit :: "char \<Rightarrow> bool" where
  "is_digit c = (c \<in> set ''0123456789'')"

definition match_digits :: "string \<Rightarrow> string option" where
  "match_digits s =
     (let r = dropWhile (\<lambda>c. \<not> is_digit c) s
      in if r = [] then None else Some (takeWhile is_digit r))"

definition parseInt :: "string \<Rightarrow> int" where
  "parseInt ds = foldl (\<lambda>n c. 10 * n + (int (of_char c) - 48)) 0 ds"

text \<open>
  \<open>expiresAt.setHours(expiresAt.getHours() + parseInt(hours))\<close> on a \<open>Date\<close> of time value
  \<open>t\<close>, as the language defines the two methods: \<open>getHours\<close> is the hour of the day of the
  local time; \<open>setHours\<close> replaces the hour of the local time, keeping its day and its
  minutes, seconds and milliseconds, converts back and clips: beyond 8640000000000000
  milliseconds from the epoch the result is the invalid date (\<open>None\<close>).
\<close>

definition TimeClip :: "int \<Rightarrow> int option" where
  "TimeClip t = (if \<bar>t\<bar> > 8640000000000000 then None else Some t)"

definition getHours :: "externals \<Rightarrow> int \<Rightarrow> int" where
  "getHours ext t = (localTime ext t div 3600000) mod 24"

definition setHours :: "externals \<Rightarrow> int \<Rightarrow> int \<Rightarrow> int option" where
  "setHours ext t hour =
     TimeClip (utcTime ext
       ((localTime ext t div 86400000) * 86400000 + hour * 3600000
          + localTime ext t mod 3600000))"

text \<open>
  \<open>findFirst\<close> on the user table: no row when none matches, otherwise the row that the
  database picks among the matching ones.
\<close>

definition findFirst_user :: "externals \<Rightarrow> (user \<Rightarrow> bool) \<Rightarrow> user list \<Rightarrow> user option" where
  "findFirst_user ext P xs =
     (let ms = filter P xs
      in if ms = [] then None else Some (ms ! (db_pick ext ms mod length ms)))"

definition find_user_by_name :: "externals \<Rightarrow> string \<Rightarrow> store \<Rightarrow> user option" where
  "find_user_by_name ext n st =
     findFirst_user ext (\<lambda>u. username u = n \<or> email u = n) (users st)"

definition find_user_by_id :: "nat \<Rightarrow> store \<Rightarrow> user option" where
  "find_user_by_id i st = find (\<lambda>u. uid u = i) (users st)"

definition set_lastLoginAt :: "nat \<Rightarrow> int \<Rightarrow> store \<Rightarrow> store" where
  "set_lastLoginAt i t st =
     st\<lparr>users := map (\<lambda>u. if uid u = i then u\<lparr>lastLoginAt := Some t\<rparr> else u) (users st)\<rparr>"

definition new_session :: "user \<Rightarrow> string \<Rightarrow> int \<Rightarrow> loginInfo \<Rightarrow> userSession" where
  "new_session u token expiresAt info =
     \<lparr>s_userId = uid u, s_token = token, s_expiresAt = expiresAt,
      s_ipAddress = ipAddress info, s_userAgent = userAgent info, s_deviceId = deviceId info\<rparr>"

definition login_claims :: "user \<Rightarrow> claims" where
  "login_claims u = \<lparr>c_userId = uid u, c_username = username u, c_role = role u\<rparr>"

text \<open>
  \<open>UserModel.login\<close>, in the order of the source: resolve the user by username or email;
  reject an unknown user; reject a user whose status is not active; compare the password;
  sign the token; compute the expiry of the session from the digits of
  \<open>JWT_EXPIRES_IN\<close>; create the session, which throws when the date is invalid or the
  table does not accept the row; stamp the last login; write the log. The result is the
  value returned or the error thrown, with the store as the call leaves it. The clock is
  read once for the call (\<open>now\<close>).
\<close>

definition login ::
  "externals \<Rightarrow> config \<Rightarrow> int \<Rightarrow> string \<Rightarrow> string \<Rightarrow> loginInfo \<Rightarrow> store
     \<Rightarrow> (exn + identity \<times> string) \<times> store" where
  "login ext cfg now uname password info st =
     (case find_user_by_name ext uname st of
        None \<Rightarrow>
          (Inl (Error M_bad_credentials),
           saveLoginLog None uname info False M_user_not_found st)
      | Some u \<Rightarrow>
          if status u \<noteq> ''active'' then
            (Inl (Error M_user_disabled),
             saveLoginLog (Some (uid u)) uname info False M_user_disabled st)
          else if \<not> bcrypt_compare ext password (passwordHash u) then
            (Inl (Error M_bad_credentials),
             saveLoginLog (Some (uid u)) uname info False M_wrong_password st)
          else
            (case jwt_sign ext (login_claims u) (JWT_SECRET cfg) (JWT_EXPIRES_IN cfg) now of
               None \<Rightarrow> (Inl (Error (M_runtime ''jwt.sign'')), st)
             | Some token \<Rightarrow>
                 (case match_digits (JWT_EXPIRES_IN cfg) of
                    None \<Rightarrow> (Inl (Error (M_runtime ''TypeError'')), st)
                  | Some hours \<Rightarrow>
                      (case setHours ext now (getHours ext now + parseInt hours) of
                         None \<Rightarrow> (Inl (Error (M_runtime ''Invalid Date'')), st)
                       | Some expiresAt \<Rightarrow>
                           if \<not> session_accepts ext (sessions st)
                                  (new_session u token expiresAt info)
                           then (Inl (Error (M_runtime ''userSession.create'')), st)
                           else
                             let st1 = st\<lparr>sessions := sessions st @
                                            [new_session u token expiresAt info]\<rparr>;
                                 st2 = set_lastLoginAt (uid u) now st1;
                                 st3 = saveLoginLog (Some (uid u)) uname info True
                                         M_login_ok st2
                             in (Inr (identity_of u, token), st3)))))"

section \<open>The authentication middleware (middleware/auth.jwt.js)\<close>

text \<open>\<open>String.prototype.replace\<close> with a string pattern: the first occurrence only.\<close>

fun replace_first :: "string \<Rightarrow> string \<Rightarrow> string \<Rightarrow> string" where
  "replace_first pat rep [] = (if pat = [] then rep else [])"
| "replace_first pat rep (c # cs) =
     (if take (length pat) (c # cs) = pat then rep @ drop (length pat) (c # cs)
      else c # replace_first pat rep cs)"

datatype auth_result = Next "identity" string | Reject nat msg

text \<open>
  \<open>authJWT\<close>: read the header, strip \<open>'Bearer '\<close>, verify the token, fetch the user of the
  decoded \<open>userId\<close>, reject when there is none or it is not active, then look for a
  session of that user with this token that has not expired. \<open>Next u t\<close> is the call of
  \<open>next()\<close> with \<open>req.user = u\<close> and \<open>req.token = t\<close>; \<open>Reject c m\<close> is the reply with
  transport status \<open>c\<close> and message \<open>m\<close>.
\<close>

definition valid_session :: "nat \<Rightarrow> string \<Rightarrow> int \<Rightarrow> userSession \<Rightarrow> bool" where
  "valid_session i token now s = (s_userId s = i \<and> s_token s = token \<and> now < s_expiresAt s)"

definition authJWT_token :: "externals \<Rightarrow> config \<Rightarrow> int \<Rightarrow> store \<Rightarrow> string \<Rightarrow> auth_result" where
  "authJWT_token ext cfg now st token =
     (case jwt_verify ext token (JWT_SECRET cfg) now of
        Inl JsonWebTokenError \<Rightarrow> Reject 401 M_jwt_invalid
      | Inl TokenExpiredError \<Rightarrow> Reject 401 M_jwt_expired
      | Inl OtherJwtError \<Rightarrow> Reject 500 M_server_error
      | Inr decoded \<Rightarrow>
          (case find_user_by_id (c_userId decoded) st of
             None \<Rightarrow> Reject 401 M_user_missing_or_disabled
           | Some u \<Rightarrow>
               if status u \<noteq> ''active'' then Reject 401 M_user_missing_or_disabled
               else
                 (case find (valid_session (uid u) token now) (sessions st) of
                    None \<Rightarrow> Reject 401 M_session_invalid
                  | Some s \<Rightarrow> Next (identity_of u) token)))"

definition authJWT ::
  "externals \<Rightarrow> config \<Rightarrow> int \<Rightarrow> store \<Rightarrow> string option \<Rightarrow> auth_result" where
  "authJWT ext cfg now st authHeader =
     (case authHeader of
        None \<Rightarrow> Reject 401 M_no_token
      | Some h \<Rightarrow>
          if h = [] then Reject 401 M_no_token
          else
            let token = replace_first ''Bearer '' [] h
            in if token = [] then Reject 401 M_bad_token
               else authJWT_token ext cfg now st token)"


section \<open>The rest of the user model\<close>

text \<open>
  JavaScript truthiness of an optional string: \<open>undefined\<close> and the empty string are falsy.
  \<open>a || b\<close> on strings is \<open>a\<close> when \<open>a\<close> is truthy and \<open>b\<close> otherwise.
\<close>

definition falsy :: "string option \<Rightarrow> bool" where
  "falsy x = (case x of None \<Rightarrow> True | Some s \<Rightarrow> s = [])"

definition or_else :: "string option \<Rightarrow> string \<Rightarrow> string" where
  "or_else x d = (if falsy x then d else the x)"

text \<open>
  A field of a JSON request body that the source distinguishes three ways: absent
  (\<open>undefined\<close>), \<open>null\<close>, or a string.
\<close>

datatype field = Undefined | Null | Val string

definition falsy_field :: "field \<Rightarrow> bool" where
  "falsy_field f = (case f of Undefined \<Rightarrow> True | Null \<Rightarrow> True | Val s \<Rightarrow> s = [])"

definition getUserInfo :: "nat \<Rightarrow> store \<Rightarrow> exn + user" where
  "getUserInfo userId st =
     (case find_user_by_id userId st of
        None \<Rightarrow> Inl (Error M_user_not_found)
      | Some u \<Rightarrow> Inr u)"

record userData =
  d_username :: string
  d_email :: string
  d_password :: string
  d_nickname :: "string option"
  d_role :: "string option"
  d_source :: "string option"

text \<open>
  \<open>UserModel.createUser\<close>: one query for a row with this username or this email; when
  it returns one, the error names the field of that row that collides (username first);
  otherwise the password is hashed and the row is created with status active. The fresh
  salt of \<open>bcrypt.hash\<close> is inside the parameter \<open>bcrypt_hash\<close>; the id is the next value
  of the table's counter.
\<close>

definition createUser :: "externals \<Rightarrow> userData \<Rightarrow> store \<Rightarrow> (exn + user) \<times> store" where
  "createUser ext d st =
     (let existingUser =
            findFirst_user ext (\<lambda>u. username u = d_username d \<or> email u = d_email d)
              (users st);
          created =
            \<lparr>uid = nextId st, username = d_username d, email = d_email d,
             passwordHash = bcrypt_hash ext (d_password d),
             nickname = Some (or_else (d_nickname d) (d_username d)),
             avatar = None, role = or_else (d_role d) ''user'', status = ''active'',
             source = or_else (d_source d) ''unknown'', disabledRemark = None,
             lastLoginAt = None\<rparr>;
          create = (Inr created, st\<lparr>users := users st @ [created], nextId := Suc (nextId st)\<rparr>)
      in case existingUser of
           None \<Rightarrow> create
         | Some e \<Rightarrow>
             if username e = d_username d then (Inl (Error M_username_exists), st)
             else if email e = d_email d then (Inl (Error M_email_registered), st)
             else create)"

record updateData =
  u_username :: "string option"
  u_email :: "string option"
  u_nickname :: field
  u_avatar :: field
  u_role :: "string option"
  u_status :: "string option"
  u_disabledRemark :: field
  u_password :: "string option"

definition no_update :: updateData where
  "no_update =
     \<lparr>u_username = None, u_email = None, u_nickname = Undefined, u_avatar = Undefined,
      u_role = None, u_status = None, u_disabledRemark = Undefined, u_password = None\<rparr>"

definition set_field :: "field \<Rightarrow> string option \<Rightarrow> string option" where
  "set_field f old = (case f of Undefined \<Rightarrow> old | Null \<Rightarrow> None | Val s \<Rightarrow> Some s)"

definition set_opt :: "string option \<Rightarrow> string \<Rightarrow> string" where
  "set_opt x old = (case x of None \<Rightarrow> old | Some s \<Rightarrow> s)"

definition apply_update :: "externals \<Rightarrow> updateData \<Rightarrow> user \<Rightarrow> user" where
  "apply_update ext d u =
     u\<lparr>username := set_opt (u_username d) (username u),
       email := set_opt (u_email d) (email u),
       nickname := set_field (u_nickname d) (nickname u),
       avatar := set_field (u_avatar d) (avatar u),
       role := set_opt (u_role d) (role u),
       status := set_opt (u_status d) (status u),
       disabledRemark := set_field (u_disabledRemark d) (disabledRemark u),
       passwordHash :=
         (case u_password d of None \<Rightarrow> passwordHash u | Some p \<Rightarrow> bcrypt_hash ext p)\<rparr>"

text \<open>
  \<open>UserModel.updateUser\<close>: a truthy password is replaced by its hash (an empty one stays
  in the data under the name \<open>password\<close>, which the ORM rejects); when a username or an
  email is given, another row (\<open>id\<close> not this one) with that username or that email makes
  the update fail, an absent field putting no condition into the \<open>OR\<close>; then the row of
  this id is updated, which the ORM rejects when there is none.
\<close>

definition updateUser ::
  "externals \<Rightarrow> nat \<Rightarrow> updateData \<Rightarrow> store \<Rightarrow> (exn + user) \<times> store" where
  "updateUser ext userId d st =
     (let existingUser =
            (if \<not> falsy (u_username d) \<or> \<not> falsy (u_email d) then
               findFirst_user ext
                 (\<lambda>u. uid u \<noteq> userId \<and>
                      (Some (username u) = u_username d \<or> Some (email u) = u_email d))
                 (users st)
             else None)
      in if (case existingUser of None \<Rightarrow> False | Some e \<Rightarrow> Some (username e) = u_username d)
         then (Inl (Error M_username_exists), st)
         else if (case existingUser of None \<Rightarrow> False | Some e \<Rightarrow> Some (email e) = u_email d)
         then (Inl (Error M_email_registered), st)
         else if u_password d = Some []
         then (Inl (Error (M_runtime ''PrismaClientValidationError'')), st)
         else
           (case find_user_by_id userId st of
              None \<Rightarrow> (Inl (Error (M_runtime ''P2025'')), st)
            | Some u \<Rightarrow>
                (Inr (apply_update ext d u),
                 st\<lparr>users :=
                      map (\<lambda>x. if uid x = userId then apply_update ext d x else x)
                        (users st)\<rparr>)))"


text \<open>
  The three statements that \<open>deleteUser\<close> hands to \<open>prisma.$transaction\<close>. \<open>deleteMany\<close>
  succeeds whatever it matches; \<open>delete\<close> fails when no row has the id.
\<close>

definition deleteMany_sessions :: "nat \<Rightarrow> store \<Rightarrow> store option" where
  "deleteMany_sessions userId st =
     Some (st\<lparr>sessions := filter (\<lambda>s. s_userId s \<noteq> userId) (sessions st)\<rparr>)"

definition deleteMany_loginLogs :: "nat \<Rightarrow> store \<Rightarrow> store option" where
  "deleteMany_loginLogs userId st =
     Some (st\<lparr>loginLogs := filter (\<lambda>l. l_userId l \<noteq> Some userId) (loginLogs st)\<rparr>)"

definition delete_user :: "nat \<Rightarrow> store \<Rightarrow> store option" where
  "delete_user userId st =
     (case find_user_by_id userId st of
        None \<Rightarrow> None
      | Some u \<Rightarrow> Some (st\<lparr>users := filter (\<lambda>x. uid x \<noteq> userId) (users st)\<rparr>))"

text \<open>
  \<open>prisma.$transaction\<close> of a list of statements: they run in order, each on the store
  the previous one left; when one fails nothing is kept. The first argument is the
  failure of the database itself: \<open>Some k\<close> when the store breaks at statement \<open>k\<close> (counted
  from 0), \<open>None\<close> when it does not. The result is the committed store, or \<open>None\<close> when
  the transaction is rolled back and throws.
\<close>

fun run_statements ::
  "nat option \<Rightarrow> nat \<Rightarrow> (store \<Rightarrow> store option) list \<Rightarrow> store \<Rightarrow> store option" where
  "run_statements fault k [] st = Some st"
| "run_statements fault k (q # qs) st =
     (if fault = Some k then None
      else case q st of None \<Rightarrow> None | Some st' \<Rightarrow> run_statements fault (Suc k) qs st')"

definition transaction ::
  "nat option \<Rightarrow> (store \<Rightarrow> store option) list \<Rightarrow> store \<Rightarrow> store option" where
  "transaction fault qs st = run_statements fault 0 qs st"

text \<open>
  \<open>UserModel.deleteUser\<close>: the user is looked up first and its absence is an error; then
  sessions, login logs and the user row are deleted in one transaction. A transaction that
  fails leaves the store as it was and its error is thrown on.
\<close>

definition deleteUser :: "nat option \<Rightarrow> nat \<Rightarrow> store \<Rightarrow> (exn + user) \<times> store" where
  "deleteUser fault userId st =
     (case find_user_by_id userId st of
        None \<Rightarrow> (Inl (Error M_user_not_found), st)
      | Some u \<Rightarrow>
          (case transaction fault
                  [deleteMany_sessions userId, deleteMany_loginLogs userId, delete_user userId] st of
             None \<Rightarrow> (Inl (Error (M_runtime ''transaction'')), st)
           | Some st' \<Rightarrow> (Inr u, st')))"


section \<open>The routes (routes/auth.js, routes/user.js)\<close>

text \<open>
  A reply is the transport status and the JSON body: the envelope \<open>{ code, message }\<close>,
  the bare \<open>{ message }\<close> of the middleware, a user row (standing for the projection the
  model selects), or the pair of identity and token that \<open>login\<close> returns. \<open>Throws e\<close> is a handler that throws \<open>e\<close> outside any
  \<open>try\<close>, or inside its own \<open>catch\<close>: the handler writes no reply, and its promise is
  rejected with \<open>e\<close>.
\<close>

datatype body = Envelope nat msg | Message msg | UserJson user | LoginJson "identity" string

datatype response = Reply nat body | Throws string

text \<open>
  \<open>POST /auth/register\<close>. The \<open>catch\<close> of the handler replies with \<open>json(user)\<close>, but
  \<open>user\<close> is declared by \<open>const\<close> inside the \<open>try\<close> block and no other \<open>user\<close> is in scope:
  evaluating the argument throws a ReferenceError, inside the \<open>catch\<close>.
\<close>

record registerBody =
  r_username :: "string option"
  r_email :: "string option"
  r_password :: "string option"
  r_nickname :: "string option"
  r_source :: "string option"

definition register_route ::
  "externals \<Rightarrow> registerBody \<Rightarrow> store \<Rightarrow> response \<times> store" where
  "register_route ext b st =
     (if falsy (r_username b) \<or> falsy (r_email b) \<or> falsy (r_password b) then
        (Reply 400 (Envelope 400 M_fields_required), st)
      else if length (the (r_password b)) < 6 then
        (Reply 400 (Envelope 400 M_password_short), st)
      else
        (case createUser ext
                \<lparr>d_username = the (r_username b), d_email = the (r_email b),
                 d_password = the (r_password b), d_nickname = r_nickname b,
                 d_role = None, d_source = r_source b\<rparr> st of
           (Inr u, st') \<Rightarrow> (Reply 201 (UserJson u), st')
         | (Inl e, st') \<Rightarrow> (Throws ''ReferenceError: user is not defined'', st')))"

text \<open>
  \<open>POST /auth/login\<close>: a missing username or password is a 400; every error thrown by
  \<open>UserModel.login\<close> is answered with transport status 200 and \<open>code\<close> 401.
\<close>

definition login_route ::
  "externals \<Rightarrow> config \<Rightarrow> int \<Rightarrow> string option \<Rightarrow> string option
     \<Rightarrow> string option \<Rightarrow> string option \<Rightarrow> store \<Rightarrow> response \<times> store" where
  "login_route ext cfg now uname password ip ua st =
     (if falsy uname \<or> falsy password then
        (Reply 400 (Envelope 400 M_login_fields_required), st)
      else
        (case login ext cfg now (the uname) (the password)
                \<lparr>ipAddress = ip, userAgent = ua, deviceId = None\<rparr> st of
           (Inr (u, token), st') \<Rightarrow> (Reply 200 (LoginJson u token), st')
         | (Inl e, st') \<Rightarrow> (Reply 200 (Envelope 401 (message e)), st')))"



text \<open>
  \<open>PUT /users/:id\<close>, after \<open>authJWT\<close> and \<open>authorizeRoles('admin', 'superadmin')\<close>. The id
  is the value of \<open>parseInt(req.params.id)\<close>, \<open>None\<close> for \<open>NaN\<close>. The body gives username,
  email, role and status as strings or not at all, and nickname, avatar and
  disabledRemark as a string, \<open>null\<close>, or not at all.
\<close>

record adminUpdateBody =
  b_username :: "string option"
  b_email :: "string option"
  b_nickname :: field
  b_avatar :: field
  b_role :: "string option"
  b_status :: "string option"
  b_disabledRemark :: field

definition updateData_of :: "adminUpdateBody \<Rightarrow> updateData" where
  "updateData_of b =
     \<lparr>u_username = b_username b, u_email = b_email b, u_nickname = b_nickname b,
      u_avatar = b_avatar b, u_role = b_role b, u_status = b_status b,
      u_disabledRemark = b_disabledRemark b, u_password = None\<rparr>"

text \<open>The \<open>catch\<close> of the handler: 404 for "user not found", 400 with the message otherwise.\<close>

definition adminUpdate_catch :: "exn \<Rightarrow> response" where
  "adminUpdate_catch e =
     (if message e = M_user_not_found then Reply 404 (Envelope 404 M_user_not_found)
      else Reply 400 (Envelope 400 (message e)))"

text \<open>
  The part of the handler from "build the update data" on: the check that blocking needs
  a remark; the clearing of the remark, entered when the status of the body is not
  \<open>'blocked'\<close> (an absent status included) and the body has no remark; the check for an
  empty update; the update itself.
\<close>

definition adminUpdate_body ::
  "externals \<Rightarrow> nat \<Rightarrow> adminUpdateBody \<Rightarrow> store \<Rightarrow> response \<times> store" where
  "adminUpdate_body ext userId b st =
     (if b_status b = Some ''blocked'' \<and> falsy_field (b_disabledRemark b) then
        (Reply 400 (Envelope 400 M_remark_required), st)
      else
        (case (if b_status b \<noteq> Some ''blocked'' \<and> b_disabledRemark b = Undefined then
                 (case getUserInfo userId st of
                    Inl e \<Rightarrow> Inl e
                  | Inr currentUser \<Rightarrow>
                      if \<not> falsy (disabledRemark currentUser)
                      then Inr ((updateData_of b)\<lparr>u_disabledRemark := Null\<rparr>)
                      else Inr (updateData_of b))
               else Inr (updateData_of b)) of
           Inl e \<Rightarrow> (adminUpdate_catch e, st)
         | Inr d \<Rightarrow>
             if d = no_update then (Reply 400 (Envelope 400 M_nothing_to_update), st)
             else
               (case updateUser ext userId d st of
                  (Inl e, st') \<Rightarrow> (adminUpdate_catch e, st')
                | (Inr u, st') \<Rightarrow> (Reply 200 (UserJson u), st'))))"

definition adminUpdate_route ::
  "externals \<Rightarrow> identity \<Rightarrow> nat option \<Rightarrow> adminUpdateBody \<Rightarrow> store \<Rightarrow> response \<times> store" where
  "adminUpdate_route ext req_user idParam b st =
     (case idParam of
        None \<Rightarrow> (Reply 400 (Envelope 400 M_invalid_user_id), st)
      | Some userId \<Rightarrow>
          if i_role req_user = ''admin'' then
            (case getUserInfo userId st of
               Inl e \<Rightarrow> (adminUpdate_catch e, st)
             | Inr targetUser \<Rightarrow>
                 if role targetUser = ''superadmin''
                 then (Reply 403 (Envelope 403 M_cannot_modify_superadmin), st)
                 else adminUpdate_body ext userId b st)
          else adminUpdate_body ext userId b st)"


text \<open>
  \<open>authorizeRoles(...roles)\<close>: the request passes when the role of \<open>req.user\<close> is one of
  the roles; otherwise the reply is 403.
\<close>

definition authorizeRoles :: "string list \<Rightarrow> identity \<Rightarrow> bool" where
  "authorizeRoles roles u = (i_role u \<in> set roles)"

text \<open>
  The whole route \<open>PUT /users/:id\<close>: \<open>authJWT\<close>, \<open>authorizeRoles('admin', 'superadmin')\<close>,
  then the handler above.
\<close>

definition put_users_id ::
  "externals \<Rightarrow> config \<Rightarrow> int \<Rightarrow> string option \<Rightarrow> nat option \<Rightarrow> adminUpdateBody \<Rightarrow> store
     \<Rightarrow> response \<times> store" where
  "put_users_id ext cfg now authHeader idParam b st =
     (case authJWT ext cfg now st authHeader of
        Reject c m \<Rightarrow> (Reply c (Message m), st)
      | Next u token \<Rightarrow>
          if \<not> authorizeRoles [''admin'', ''superadmin''] u
          then (Reply 403 (Message M_forbidden), st)
          else adminUpdate_route ext u idParam b st)"

text \<open>
  The \<open>PUT\<close> routes of routes/user.js in the order in which they are registered:
  \<open>/me\<close>, \<open>/:id\<close>, \<open>/change-password\<close>. For a path of one segment the router runs the
  first route that matches, and none of the three passes the request on. A literal path
  matches without regard to case; a parameter matches every non-empty segment.
\<close>

datatype put_route = PUT_me | PUT_id | PUT_change_password

definition to_lower :: "char \<Rightarrow> char" where
  "to_lower c =
     (case map_of (zip ''ABCDEFGHIJKLMNOPQRSTUVWXYZ'' ''abcdefghijklmnopqrstuvwxyz'') c of
        None \<Rightarrow> c
      | Some l \<Rightarrow> l)"

definition put_routes :: "(string \<times> put_route) list" where
  "put_routes =
     [(''me'', PUT_me), ('':id'', PUT_id), (''change-password'', PUT_change_password)]"

definition path_matches :: "string \<Rightarrow> string \<Rightarrow> bool" where
  "path_matches pat seg =
     (case pat of
        [] \<Rightarrow> seg = []
      | c # cs \<Rightarrow> if c = CHR '':'' then seg \<noteq> [] else map to_lower seg = pat)"

definition put_dispatch :: "string \<Rightarrow> put_route option" where
  "put_dispatch seg = map_option snd (find (\<lambda>r. path_matches (fst r) seg) put_routes)"

section \<open>Example data\<close>

text \<open>
  A toy instance of the libraries: the hash of a password is the password after \<open>#\<close>;
  the token of a payload is \<open>jwt:\<close>, the user id in decimal digits of the two users
  below, and the username; \<open>jwt.verify\<close> knows the tokens of the two users and treats
  a token as expired from time 90000000 on. The database returns the first matching row,
  the session table accepts every row, and the time zone is UTC.
\<close>

definition alice :: user where
  "alice =
     \<lparr>uid = 1, username = ''alice'', email = ''alice@x.com'', passwordHash = ''#secret1'',
      nickname = Some ''alice'', avatar = None, role = ''user'', status = ''active'',
      source = ''unknown'', disabledRemark = None, lastLoginAt = None\<rparr>"

definition bob :: user where
  "bob =
     \<lparr>uid = 2, username = ''bob'', email = ''bob@x.com'', passwordHash = ''#secret2'',
      nickname = Some ''bob'', avatar = None, role = ''user'', status = ''blocked'',
      source = ''unknown'', disabledRemark = Some ''spam'', lastLoginAt = None\<rparr>"

definition demo_sign :: "claims \<Rightarrow> string \<Rightarrow> string \<Rightarrow> int \<Rightarrow> string option" where
  "demo_sign c secret expiresIn t =
     (if secret = [] then None
      else Some (''jwt:'' @ (if c_userId c = 1 then ''1'' else ''2'') @ '':'' @ c_username c))"

definition demo_verify :: "string \<Rightarrow> string \<Rightarrow> int \<Rightarrow> jwt_error + claims" where
  "demo_verify token secret t =
     (if token = ''jwt:1:alice'' then
        (if t < 90000000 then Inr (login_claims alice) else Inl TokenExpiredError)
      else if token = ''jwt:2:bob'' then
        (if t < 90000000 then Inr (login_claims bob) else Inl TokenExpiredError)
      else Inl JsonWebTokenError)"

definition demo_ext :: externals where
  "demo_ext =
     \<lparr>bcrypt_compare = (\<lambda>p h. h = CHR ''#'' # p), bcrypt_hash = (\<lambda>p. CHR ''#'' # p),
      jwt_sign = demo_sign, jwt_verify = demo_verify, db_pick = (\<lambda>ms. 0),
      session_accepts = (\<lambda>rows row. True), localTime = (\<lambda>t. t), utcTime = (\<lambda>t. t)\<rparr>"

definition demo_cfg :: config where
  "demo_cfg = \<lparr>JWT_SECRET = ''k'', JWT_EXPIRES_IN = ''24h''\<rparr>"

definition demo_store :: store where
  "demo_store = \<lparr>users = [alice, bob], sessions = [], loginLogs = [], nextId = 3\<rparr>"

definition demo_info :: loginInfo where
  "demo_info = \<lparr>ipAddress = Some ''10.0.0.1'', userAgent = Some ''curl'', deviceId = None\<rparr>"


definition demo_store_logged_in :: store where
  "demo_store_logged_in =
     snd (login demo_ext demo_cfg 1000 ''alice'' ''secret1'' demo_info demo_store)"

definition demo_store_busy :: store where
  "demo_store_busy =
     snd (login demo_ext demo_cfg 1000 ''bob'' ''secret2'' demo_info
       (snd (login demo_ext demo_cfg 1000 ''alice'' ''secret1'' demo_info demo_store)))"

definition cfg_7d :: config where
  "cfg_7d = \<lparr>JWT_SECRET = ''k'', JWT_EXPIRES_IN = ''7d''\<rparr>"

definition carol :: user where
  "carol =
     \<lparr>uid = 3, username = ''carol'', email = ''carol@x.com'', passwordHash = ''#secret3'',
      nickname = Some ''carol'', avatar = None, role = ''admin'', status = ''active'',
      source = ''admin-created'', disabledRemark = None, lastLoginAt = None\<rparr>"

definition demo_store_admin :: store where
  "demo_store_admin = \<lparr>users = [alice, bob, carol], sessions = [], loginLogs = [], nextId = 4\<rparr>"

definition nickname_only :: adminUpdateBody where
  "nickname_only =
     \<lparr>b_username = None, b_email = None, b_nickname = Val ''bobby'', b_avatar = Undefined,
      b_role = None, b_status = None, b_disabledRemark = Undefined\<rparr>"

definition dave_body :: registerBody where
  "dave_body =
     \<lparr>r_username = Some ''dave'', r_email = Some ''dave@x.com'', r_password = Some ''secret4'',
      r_nickname = None, r_source = None\<rparr>"

definition dave :: user where
  "dave =
     \<lparr>uid = 3, username = ''dave'', email = ''dave@x.com'', passwordHash = ''#secret4'',
      nickname = Some ''dave'', avatar = None, role = ''user'', status = ''active'',
      source = ''unknown'', disabledRemark = None, lastLoginAt = None\<rparr>"

definition demo_store_dave :: store where
  "demo_store_dave = \<lparr>users = [alice, bob, dave], sessions = [], loginLogs = [], nextId = 4\<rparr>"

section \<open>Properties\<close>

lemmas demo_defs = demo_ext_def demo_cfg_def demo_store_def demo_info_def demo_sign_def
  demo_verify_def alice_def bob_def login_claims_def

subsection \<open>What \<open>login\<close> and \<open>authJWT\<close> return, case by case\<close>

lemma findFirst_user_None:
  "(findFirst_user ext P xs = None) = (\<forall>x \<in> set xs. \<not> P x)"
  by (simp add: findFirst_user_def Let_def filter_empty_conv)

lemma findFirst_user_SomeD:
  assumes "findFirst_user ext P xs = Some u"
  shows "u \<in> set xs \<and> P u"
proof -
  let ?ms = "filter P xs"
  from assms have ne: "?ms \<noteq> []" and u: "u = ?ms ! (db_pick ext ?ms mod length ?ms)"
    by (auto simp: findFirst_user_def Let_def split: if_splits)
  from ne have "db_pick ext ?ms mod length ?ms < length ?ms" by simp
  then have "?ms ! (db_pick ext ?ms mod length ?ms) \<in> set ?ms" by (rule nth_mem)
  with u show ?thesis by simp
qed

lemma login_disabled:
  "find_user_by_name ext uname st = Some u \<Longrightarrow> status u \<noteq> ''active'' \<Longrightarrow>
   login ext cfg now uname pw info st =
     (Inl (Error M_user_disabled),
      saveLoginLog (Some (uid u)) uname info False M_user_disabled st)"
  by (simp add: login_def)

lemma login_wrong_password:
  "find_user_by_name ext uname st = Some u \<Longrightarrow> status u = ''active'' \<Longrightarrow>
   \<not> bcrypt_compare ext pw (passwordHash u) \<Longrightarrow>
   login ext cfg now uname pw info st =
     (Inl (Error M_bad_credentials),
      saveLoginLog (Some (uid u)) uname info False M_wrong_password st)"
  by (simp add: login_def)

lemma login_unknown_user:
  "find_user_by_name ext uname st = None \<Longrightarrow>
   login ext cfg now uname pw info st =
     (Inl (Error M_bad_credentials), saveLoginLog None uname info False M_user_not_found st)"
  by (simp add: login_def)

lemma login_active_not_disabled:
  "find_user_by_name ext uname st = Some u \<Longrightarrow> status u = ''active'' \<Longrightarrow>
   fst (login ext cfg now uname pw info st) \<noteq> Inl (Error M_user_disabled)"
  by (simp add: login_def Let_def split: option.splits)

lemma authJWT_token_NextD:
  assumes "authJWT_token ext cfg now st token = Next i tok"
  shows "\<exists>d u s. jwt_verify ext token (JWT_SECRET cfg) now = Inr d
           \<and> find_user_by_id (c_userId d) st = Some u \<and> status u = ''active''
           \<and> find (valid_session (uid u) token now) (sessions st) = Some s
           \<and> i = identity_of u \<and> tok = token"
proof (cases "jwt_verify ext token (JWT_SECRET cfg) now")
  case (Inl e)
  with assms show ?thesis
    by (cases e) (simp_all add: authJWT_token_def)
next
  case (Inr d)
  show ?thesis
  proof (cases "find_user_by_id (c_userId d) st")
    case None
    with Inr assms show ?thesis by (simp add: authJWT_token_def)
  next
    case (Some u)
    show ?thesis
    proof (cases "find (valid_session (uid u) token now) (sessions st)")
      case None
      with Inr Some assms show ?thesis
        by (simp add: authJWT_token_def split: if_splits)
    next
      case (Some s)
      with Inr \<open>find_user_by_id (c_userId d) st = Some u\<close> assms show ?thesis
        by (simp add: authJWT_token_def split: if_splits)
    qed
  qed
qed

lemma login_InrD:
  assumes "login ext cfg now uname pw info st = (Inr r, st')"
  shows "\<exists>u token hours expiresAt.
             find_user_by_name ext uname st = Some u \<and> status u = ''active''
           \<and> bcrypt_compare ext pw (passwordHash u)
           \<and> jwt_sign ext (login_claims u) (JWT_SECRET cfg) (JWT_EXPIRES_IN cfg) now = Some token
           \<and> match_digits (JWT_EXPIRES_IN cfg) = Some hours
           \<and> setHours ext now (getHours ext now + parseInt hours) = Some expiresAt
           \<and> session_accepts ext (sessions st) (new_session u token expiresAt info)
           \<and> r = (identity_of u, token)
           \<and> st' = saveLoginLog (Some (uid u)) uname info True M_login_ok
                    (set_lastLoginAt (uid u) now
                      (st\<lparr>sessions := sessions st @ [new_session u token expiresAt info]\<rparr>))"
proof (cases "find_user_by_name ext uname st")
  case None
  with assms show ?thesis by (simp add: login_def)
next
  case (Some u)
  note u = Some
  show ?thesis
  proof (cases "status u \<noteq> ''active'' \<or> \<not> bcrypt_compare ext pw (passwordHash u)")
    case True
    with u assms show ?thesis by (auto simp add: login_def split: if_splits)
  next
    case False
    note ok = False
    show ?thesis
    proof (cases "jwt_sign ext (login_claims u) (JWT_SECRET cfg) (JWT_EXPIRES_IN cfg) now")
      case None
      with u ok assms show ?thesis by (simp add: login_def)
    next
      case (Some token)
      note tk = Some
      show ?thesis
      proof (cases "match_digits (JWT_EXPIRES_IN cfg)")
        case None
        with u ok tk assms show ?thesis by (simp add: login_def)
      next
        case (Some hours)
        note hrs = Some
        show ?thesis
        proof (cases "setHours ext now (getHours ext now + parseInt hours)")
          case None
          with u ok tk hrs assms show ?thesis by (simp add: login_def)
        next
          case (Some expiresAt)
          with u ok tk hrs assms show ?thesis
            by (simp add: login_def Let_def split: if_splits)
        qed
      qed
    qed
  qed
qed

lemma authJWT_NextD:
  assumes "authJWT ext cfg now st h = Next i tok"
  shows "\<exists>hd. h = Some hd \<and> tok = replace_first ''Bearer '' [] hd \<and> tok \<noteq> []
            \<and> authJWT_token ext cfg now st tok = Next i tok"
proof (cases h)
  case None
  with assms show ?thesis by (simp add: authJWT_def)
next
  case (Some hd)
  with assms have ne: "replace_first ''Bearer '' [] hd \<noteq> []"
    and t: "authJWT_token ext cfg now st (replace_first ''Bearer '' [] hd) = Next i tok"
    by (simp_all add: authJWT_def Let_def split: if_splits)
  from authJWT_token_NextD [OF t] have "tok = replace_first ''Bearer '' [] hd" by blast
  with t ne Some show ?thesis by simp
qed

lemma replace_first_Bearer: "replace_first ''Bearer '' [] (''Bearer '' @ t) = t"
  by simp

subsection \<open>Token validation\<close>

text \<open>
  C1 (as the code has it). For a token whose signature verifies and whose encoded expiry has
  not passed, \<open>authJWT\<close> fetches the user of the decoded id before it looks for the
  session: when that user is missing or not active the request fails with the
  "user missing or disabled" reply whatever the session table holds, and it fails with the
  "session expired or invalid" reply exactly when the user exists, is active, and no
  unexpired session row of that user carries the token.
\<close>

theorem authJWT_token_user_first:
  assumes "jwt_verify ext token (JWT_SECRET cfg) now = Inr d"
  shows "((\<forall>u. find_user_by_id (c_userId d) st = Some u \<longrightarrow> status u \<noteq> ''active'') \<longrightarrow>
            authJWT_token ext cfg now st token = Reject 401 M_user_missing_or_disabled)
       \<and> (authJWT_token ext cfg now st token = Reject 401 M_session_invalid \<longleftrightarrow>
            (\<exists>u. find_user_by_id (c_userId d) st = Some u \<and> status u = ''active'' \<and>
                 \<not> (\<exists>s \<in> set (sessions st).
                       s_userId s = uid u \<and> s_token s = token \<and> now < s_expiresAt s)))"
  using assms
  by (auto simp: authJWT_token_def find_None_iff valid_session_def find_Some_iff
           split: option.splits)

theorem authJWT_token_user_first_witness:
  "jwt_verify demo_ext ''jwt:1:alice'' (JWT_SECRET demo_cfg) 2000 = Inr (login_claims alice)
   \<and> authJWT_token demo_ext demo_cfg 2000 demo_store ''jwt:1:alice''
       = Reject 401 M_session_invalid"
proof -
  have h: "jwt_verify demo_ext ''jwt:1:alice'' (JWT_SECRET demo_cfg) 2000
             = Inr (login_claims alice)"
    by (simp add: demo_ext_def demo_verify_def)
  have u: "find_user_by_id (c_userId (login_claims alice)) demo_store = Some alice"
    by (simp add: find_user_by_id_def demo_store_def alice_def bob_def login_claims_def)
  from authJWT_token_user_first [OF h, of demo_store] u h show ?thesis
    by (simp add: demo_store_def alice_def)
qed

text \<open>
  The claim as the specification words it (the session is looked up first, so a revoked
  session of an inactive user fails as "session revoked") is false: bob is blocked and has
  no session row, his token verifies, and the reply is "user missing or disabled".
\<close>

theorem authJWT_revoked_and_inactive_counterexample:
  "jwt_verify demo_ext ''jwt:2:bob'' (JWT_SECRET demo_cfg) 2000 = Inr (login_claims bob)
   \<and> sessions demo_store = []
   \<and> authJWT_token demo_ext demo_cfg 2000 demo_store ''jwt:2:bob''
       = Reject 401 M_user_missing_or_disabled
   \<and> authJWT_token demo_ext demo_cfg 2000 demo_store ''jwt:2:bob''
       \<noteq> Reject 401 M_session_invalid"
  by (simp add: authJWT_token_def find_user_by_id_def demo_defs)

text \<open>
  C10. \<open>authJWT\<close> admits a request only if the request has an \<open>Authorization\<close> header,
  the token it passes on is the presented one (the header with its first \<open>'Bearer '\<close>
  removed, so the \<open>t\<close> of a header \<open>Bearer t\<close>), and a stored session row carries that
  token and the user id decoded from the token's claims, unexpired; the identity it
  attaches is that same user. And a successful \<open>login\<close> signs the id of the user it
  resolved into the token and appends one session row with that id and that token. So a
  session row created for one user never admits a request as another user.
\<close>

theorem authJWT_session_of_same_user:
  "(authJWT ext cfg now st h = Next i tok \<longrightarrow>
      (\<exists>hd d s. h = Some hd \<and> tok = replace_first ''Bearer '' [] hd \<and> tok \<noteq> []
             \<and> jwt_verify ext tok (JWT_SECRET cfg) now = Inr d \<and> c_userId d = i_id i
             \<and> s \<in> set (sessions st) \<and> s_token s = tok \<and> s_userId s = i_id i
             \<and> now < s_expiresAt s))
   \<and> (authJWT ext cfg now st (Some (''Bearer '' @ t)) = Next i tok \<longrightarrow> tok = t)
   \<and> (login ext cfg now uname pw info st = (Inr (i', tok'), st') \<longrightarrow>
      (\<exists>u s. find_user_by_name ext uname st = Some u \<and> i_id i' = uid u
             \<and> jwt_sign ext (login_claims u) (JWT_SECRET cfg) (JWT_EXPIRES_IN cfg) now = Some tok'
             \<and> c_userId (login_claims u) = uid u
             \<and> sessions st' = sessions st @ [s] \<and> s_userId s = uid u \<and> s_token s = tok'))"
proof (intro conjI impI)
  assume "authJWT ext cfg now st h = Next i tok"
  from authJWT_NextD [OF this] obtain hd where
      hd: "h = Some hd" "tok = replace_first ''Bearer '' [] hd" "tok \<noteq> []"
      and t: "authJWT_token ext cfg now st tok = Next i tok"
    by blast
  from authJWT_token_NextD [OF t] obtain d u s where
      d: "jwt_verify ext tok (JWT_SECRET cfg) now = Inr d"
      and u: "find_user_by_id (c_userId d) st = Some u"
      and s: "find (valid_session (uid u) tok now) (sessions st) = Some s"
      and i: "i = identity_of u"
    by blast
  from u have "uid u = c_userId d"
    by (auto simp: find_user_by_id_def find_Some_iff)
  moreover from s have "s \<in> set (sessions st)" "valid_session (uid u) tok now s"
    by (auto simp: find_Some_iff)
  ultimately show "\<exists>hd d s. h = Some hd \<and> tok = replace_first ''Bearer '' [] hd \<and> tok \<noteq> []
             \<and> jwt_verify ext tok (JWT_SECRET cfg) now = Inr d \<and> c_userId d = i_id i
             \<and> s \<in> set (sessions st) \<and> s_token s = tok \<and> s_userId s = i_id i
             \<and> now < s_expiresAt s"
    using d i hd by (auto simp: valid_session_def identity_of_def)
next
  assume "authJWT ext cfg now st (Some (''Bearer '' @ t)) = Next i tok"
  from authJWT_NextD [OF this]
  have "tok = replace_first ''Bearer '' [] (''Bearer '' @ t)" by blast
  then show "tok = t" by (simp only: replace_first_Bearer)
next
  assume "login ext cfg now uname pw info st = (Inr (i', tok'), st')"
  from login_InrD [OF this] obtain u expiresAt where
      "find_user_by_name ext uname st = Some u"
      "jwt_sign ext (login_claims u) (JWT_SECRET cfg) (JWT_EXPIRES_IN cfg) now = Some tok'"
      "i' = identity_of u"
      "st' = saveLoginLog (Some (uid u)) uname info True M_login_ok
                    (set_lastLoginAt (uid u) now
                      (st\<lparr>sessions := sessions st @ [new_session u tok' expiresAt info]\<rparr>))"
    by auto
  then show "\<exists>u s. find_user_by_name ext uname st = Some u \<and> i_id i' = uid u
             \<and> jwt_sign ext (login_claims u) (JWT_SECRET cfg) (JWT_EXPIRES_IN cfg) now = Some tok'
             \<and> c_userId (login_claims u) = uid u
             \<and> sessions st' = sessions st @ [s] \<and> s_userId s = uid u \<and> s_token s = tok'"
    by (simp add: identity_of_def login_claims_def new_session_def saveLoginLog_def
          set_lastLoginAt_def)
qed

theorem authJWT_session_of_same_user_witness:
  "authJWT demo_ext demo_cfg 2000 demo_store_logged_in (Some ''Bearer jwt:1:alice'')
     = Next (identity_of alice) ''jwt:1:alice''
   \<and> (\<exists>s \<in> set (sessions demo_store_logged_in).
         s_token s = ''jwt:1:alice'' \<and> s_userId s = uid alice)"
proof -
  have a: "authJWT demo_ext demo_cfg 2000 demo_store_logged_in (Some ''Bearer jwt:1:alice'')
     = Next (identity_of alice) ''jwt:1:alice''"
    by (simp add: demo_store_logged_in_def login_def find_user_by_name_def findFirst_user_def
          demo_defs match_digits_def is_digit_def parseInt_def setHours_def getHours_def
          TimeClip_def new_session_def
          set_lastLoginAt_def saveLoginLog_def identity_of_def Let_def
          authJWT_def authJWT_token_def find_user_by_id_def valid_session_def)
  from authJWT_session_of_same_user [THEN conjunct1, THEN mp, OF a]
  obtain s where "s \<in> set (sessions demo_store_logged_in)" "s_token s = ''jwt:1:alice''"
      "s_userId s = i_id (identity_of alice)"
    by blast
  then have "\<exists>s \<in> set (sessions demo_store_logged_in).
         s_token s = ''jwt:1:alice'' \<and> s_userId s = uid alice"
    by (auto simp: identity_of_def)
  with a show ?thesis by simp
qed

subsection \<open>Login failures\<close>

text \<open>
  C3 (as the code has it). \<open>login\<close> checks the status of the resolved user before the
  password: it fails with "user disabled" exactly when the resolved user is not active,
  whatever the password, and a wrong password against an active user fails with
  "username or password wrong".
\<close>

theorem login_checks_status_before_password:
  assumes "find_user_by_name ext uname st = Some u"
  shows "(fst (login ext cfg now uname pw info st) = Inl (Error M_user_disabled)
            \<longleftrightarrow> status u \<noteq> ''active'')
       \<and> (status u = ''active'' \<and> \<not> bcrypt_compare ext pw (passwordHash u) \<longrightarrow>
            fst (login ext cfg now uname pw info st) = Inl (Error M_bad_credentials))"
  using login_disabled [OF assms, where cfg = cfg and now = now and pw = pw and info = info]
    login_wrong_password [OF assms, where cfg = cfg and now = now and pw = pw and info = info]
    login_active_not_disabled [OF assms, where cfg = cfg and now = now and pw = pw and info = info]
  by auto

theorem login_checks_status_before_password_witness:
  "find_user_by_name demo_ext ''alice'' demo_store = Some alice
   \<and> status alice = ''active'' \<and> \<not> bcrypt_compare demo_ext ''guess'' (passwordHash alice)
   \<and> fst (login demo_ext demo_cfg 1000 ''alice'' ''guess'' demo_info demo_store)
       = Inl (Error M_bad_credentials)"
proof -
  have h: "find_user_by_name demo_ext ''alice'' demo_store = Some alice"
    by (simp add: find_user_by_name_def findFirst_user_def demo_ext_def demo_store_def alice_def)
  have k: "status alice = ''active'' \<and> \<not> bcrypt_compare demo_ext ''guess'' (passwordHash alice)"
    by (simp add: demo_ext_def alice_def)
  from login_checks_status_before_password
         [OF h, where cfg = demo_cfg and now = 1000 and pw = "''guess''" and info = demo_info] k h
  show ?thesis by simp
qed

text \<open>
  The claim as the specification words it (a wrong password never yields "account disabled")
  is false: a wrong password against the blocked user bob yields "user disabled".
\<close>

theorem login_wrong_password_disabled_counterexample:
  "find_user_by_name demo_ext ''bob'' demo_store = Some bob
   \<and> \<not> bcrypt_compare demo_ext ''guess'' (passwordHash bob)
   \<and> fst (login demo_ext demo_cfg 1000 ''bob'' ''guess'' demo_info demo_store)
       = Inl (Error M_user_disabled)"
  by (simp add: login_def find_user_by_name_def findFirst_user_def demo_ext_def demo_defs)

text \<open>
  C4. A failed login against an existing active user with a wrong password and a failed
  login against a name that resolves to no user throw the same error with the same
  message, and the login route answers both with the same reply.
\<close>

theorem login_failures_indistinguishable:
  assumes "find_user_by_name ext u1 st1 = Some a" and "status a = ''active''"
      and "\<not> bcrypt_compare ext p1 (passwordHash a)"
      and "find_user_by_name ext u2 st2 = None"
  shows "fst (login ext cfg t1 u1 p1 info1 st1) = fst (login ext cfg t2 u2 p2 info2 st2)
       \<and> fst (login ext cfg t1 u1 p1 info1 st1) = Inl (Error M_bad_credentials)
       \<and> (u1 \<noteq> [] \<and> p1 \<noteq> [] \<and> u2 \<noteq> [] \<and> p2 \<noteq> [] \<longrightarrow>
            fst (login_route ext cfg t1 (Some u1) (Some p1) ip1 ua1 st1)
              = fst (login_route ext cfg t2 (Some u2) (Some p2) ip2 ua2 st2)
            \<and> fst (login_route ext cfg t1 (Some u1) (Some p1) ip1 ua1 st1)
              = Reply 200 (Envelope 401 M_bad_credentials))"
  using assms
  by (simp add: login_wrong_password login_unknown_user login_route_def falsy_def)

theorem login_failures_indistinguishable_witness:
  "find_user_by_name demo_ext ''alice'' demo_store = Some alice
   \<and> find_user_by_name demo_ext ''nonexistent'' demo_store = None
   \<and> fst (login_route demo_ext demo_cfg 1000 (Some ''alice'') (Some ''wrongpass'') None None
            demo_store)
     = fst (login_route demo_ext demo_cfg 1000 (Some ''nonexistent'') (Some ''x'') None None
            demo_store)"
proof -
  have a: "find_user_by_name demo_ext ''alice'' demo_store = Some alice"
    by (simp add: find_user_by_name_def findFirst_user_def demo_ext_def demo_store_def alice_def)
  have b: "status alice = ''active''" by (simp add: alice_def)
  have c: "\<not> bcrypt_compare demo_ext ''wrongpass'' (passwordHash alice)"
    by (simp add: demo_ext_def alice_def)
  have d: "find_user_by_name demo_ext ''nonexistent'' demo_store = None"
    by (simp add: find_user_by_name_def findFirst_user_def demo_ext_def demo_store_def alice_def bob_def)
  from login_failures_indistinguishable
         [OF a b c d, where cfg = demo_cfg and ?t1.0 = 1000 and ?t2.0 = 1000 and ?p2.0 = "''x''"
            and ?ip1.0 = None and ?ua1.0 = None and ?ip2.0 = None and ?ua2.0 = None]
  show ?thesis using a d by simp
qed

text \<open>
  C9 (as the code has it). A login request that supplies a username and a password and
  fails in \<open>UserModel.login\<close> (unknown user, disabled account, wrong password, or any other
  error it throws) is answered with transport status 200 and an envelope whose code is
  401 and whose message is the message of the error. A request in which the username or
  the password is missing or empty is answered with transport status 400 and code 400
  before any credential is looked at, and leaves the store as it was.
\<close>

theorem failed_login_reply:
  "(falsy uname \<or> falsy password \<longrightarrow>
      login_route ext cfg now uname password ip ua st
        = (Reply 400 (Envelope 400 M_login_fields_required), st))
   \<and> (\<not> falsy uname \<and> \<not> falsy password \<longrightarrow>
        (fst (login ext cfg now (the uname) (the password)
               \<lparr>ipAddress = ip, userAgent = ua, deviceId = None\<rparr> st) = Inl e \<longrightarrow>
            fst (login_route ext cfg now uname password ip ua st)
              = Reply 200 (Envelope 401 (message e)))
       \<and> (find_user_by_name ext (the uname) st = None \<longrightarrow>
            fst (login_route ext cfg now uname password ip ua st)
              = Reply 200 (Envelope 401 M_bad_credentials))
       \<and> (\<forall>u. find_user_by_name ext (the uname) st = Some u \<and> status u \<noteq> ''active'' \<longrightarrow>
            fst (login_route ext cfg now uname password ip ua st)
              = Reply 200 (Envelope 401 M_user_disabled))
       \<and> (\<forall>u. find_user_by_name ext (the uname) st = Some u \<and> status u = ''active''
               \<and> \<not> bcrypt_compare ext (the password) (passwordHash u) \<longrightarrow>
            fst (login_route ext cfg now uname password ip ua st)
              = Reply 200 (Envelope 401 M_bad_credentials)))"
proof (intro conjI impI allI)
  assume "falsy uname \<or> falsy password"
  then show "login_route ext cfg now uname password ip ua st
        = (Reply 400 (Envelope 400 M_login_fields_required), st)"
    by (auto simp: login_route_def)
next
  assume ok: "\<not> falsy uname \<and> \<not> falsy password"
  assume "fst (login ext cfg now (the uname) (the password)
               \<lparr>ipAddress = ip, userAgent = ua, deviceId = None\<rparr> st) = Inl e"
  with ok show "fst (login_route ext cfg now uname password ip ua st)
              = Reply 200 (Envelope 401 (message e))"
    by (cases "login ext cfg now (the uname) (the password)
               \<lparr>ipAddress = ip, userAgent = ua, deviceId = None\<rparr> st")
       (simp add: login_route_def)
next
  assume ok: "\<not> falsy uname \<and> \<not> falsy password"
  assume "find_user_by_name ext (the uname) st = None"
  with ok show "fst (login_route ext cfg now uname password ip ua st)
              = Reply 200 (Envelope 401 M_bad_credentials)"
    by (simp add: login_route_def login_unknown_user)
next
  fix u
  assume ok: "\<not> falsy uname \<and> \<not> falsy password"
  assume "find_user_by_name ext (the uname) st = Some u \<and> status u \<noteq> ''active''"
  with ok show "fst (login_route ext cfg now uname password ip ua st)
              = Reply 200 (Envelope 401 M_user_disabled)"
    by (simp add: login_route_def login_disabled)
next
  fix u
  assume ok: "\<not> falsy uname \<and> \<not> falsy password"
  assume "find_user_by_name ext (the uname) st = Some u \<and> status u = ''active''
               \<and> \<not> bcrypt_compare ext (the password) (passwordHash u)"
  with ok show "fst (login_route ext cfg now uname password ip ua st)
              = Reply 200 (Envelope 401 M_bad_credentials)"
    by (simp add: login_route_def login_wrong_password)
qed

theorem failed_login_reply_witness:
  "\<not> falsy (Some ''bob'') \<and> \<not> falsy (Some ''secret2'')
   \<and> find_user_by_name demo_ext ''bob'' demo_store = Some bob \<and> status bob \<noteq> ''active''
   \<and> fst (login_route demo_ext demo_cfg 1000 (Some ''bob'') (Some ''secret2'') None None
            demo_store)
       = Reply 200 (Envelope 401 M_user_disabled)
   \<and> falsy None
   \<and> login_route demo_ext demo_cfg 1000 (Some ''bob'') None None None demo_store
       = (Reply 400 (Envelope 400 M_login_fields_required), demo_store)"
proof -
  have a: "\<not> falsy (Some ''bob'') \<and> \<not> falsy (Some ''secret2'')"
    by (simp add: falsy_def)
  have c: "find_user_by_name demo_ext (the (Some ''bob'')) demo_store = Some bob
           \<and> status bob \<noteq> ''active''"
    by (simp add: find_user_by_name_def findFirst_user_def demo_ext_def demo_store_def
          alice_def bob_def)
  have f: "falsy (Some ''bob'') \<or> falsy None" by (simp add: falsy_def)
  from failed_login_reply [where uname = "Some ''bob''" and password = "Some ''secret2''"
         and st = demo_store and ext = demo_ext and cfg = demo_cfg
         and now = 1000 and ip = None and ua = None] a c
  have r1: "fst (login_route demo_ext demo_cfg 1000 (Some ''bob'') (Some ''secret2'') None None
            demo_store) = Reply 200 (Envelope 401 M_user_disabled)"
    by blast
  from failed_login_reply [where uname = "Some ''bob''" and password = None
         and st = demo_store and ext = demo_ext and cfg = demo_cfg
         and now = 1000 and ip = None and ua = None] f
  have r2: "login_route demo_ext demo_cfg 1000 (Some ''bob'') None None None demo_store
       = (Reply 400 (Envelope 400 M_login_fields_required), demo_store)"
    by blast
  from a c r1 r2 show ?thesis by (simp add: falsy_def)
qed

text \<open>
  The claim as the specification words it (every failed login attempt gets transport
  status 200 with code 401) is false: alice exists and is active, the empty password does
  not match her hash, so the credential check of \<open>UserModel.login\<close> fails as a wrong
  password, but the route answers the request with transport status 400 and code 400.
\<close>

theorem failed_login_empty_password_counterexample:
  "find_user_by_name demo_ext ''alice'' demo_store = Some alice
   \<and> status alice = ''active''
   \<and> \<not> bcrypt_compare demo_ext [] (passwordHash alice)
   \<and> fst (login demo_ext demo_cfg 1000 ''alice'' []
            \<lparr>ipAddress = None, userAgent = None, deviceId = None\<rparr> demo_store)
       = Inl (Error M_bad_credentials)
   \<and> fst (login_route demo_ext demo_cfg 1000 (Some ''alice'') (Some []) None None demo_store)
       = Reply 400 (Envelope 400 M_login_fields_required)
   \<and> fst (login_route demo_ext demo_cfg 1000 (Some ''alice'') (Some []) None None demo_store)
       \<noteq> Reply 200 (Envelope 401 M_bad_credentials)"
  by (simp add: login_route_def login_def falsy_def find_user_by_name_def findFirst_user_def
        demo_defs)

subsection \<open>Deleting a user\<close>

lemma deleteUser_absent:
  "find_user_by_id userId st = None \<Longrightarrow>
   deleteUser fault userId st = (Inl (Error M_user_not_found), st)"
  by (simp add: deleteUser_def)

lemma transaction_delete:
  assumes "find_user_by_id userId st = Some u"
  shows "transaction fault
           [deleteMany_sessions userId, deleteMany_loginLogs userId, delete_user userId] st
         = (if fault \<in> {Some 0, Some 1, Some 2} then None
            else Some (st\<lparr>sessions := filter (\<lambda>s. s_userId s \<noteq> userId) (sessions st),
                          loginLogs := filter (\<lambda>l. l_userId l \<noteq> Some userId) (loginLogs st),
                          users := filter (\<lambda>x. uid x \<noteq> userId) (users st)\<rparr>))"
  using assms
  by (simp add: transaction_def deleteMany_sessions_def deleteMany_loginLogs_def
        delete_user_def find_user_by_id_def numeral_2_eq_2)

lemma deleteUser_present:
  assumes "find_user_by_id userId st = Some u"
  shows "deleteUser fault userId st
         = (if fault \<in> {Some 0, Some 1, Some 2} then (Inl (Error (M_runtime ''transaction'')), st)
            else (Inr u,
                  st\<lparr>sessions := filter (\<lambda>s. s_userId s \<noteq> userId) (sessions st),
                     loginLogs := filter (\<lambda>l. l_userId l \<noteq> Some userId) (loginLogs st),
                     users := filter (\<lambda>x. uid x \<noteq> userId) (users st)\<rparr>))"
  using assms by (simp add: deleteUser_def transaction_delete del: insert_iff)

lemma demo_store_busy_eq:
  "demo_store_busy =
     \<lparr>users = [alice\<lparr>lastLoginAt := Some 1000\<rparr>, bob],
      sessions = [\<lparr>s_userId = 1, s_token = ''jwt:1:alice'', s_expiresAt = 86401000,
           s_ipAddress = Some ''10.0.0.1'', s_userAgent = Some ''curl'',
           s_deviceId = None\<rparr>],
      loginLogs = [\<lparr>l_userId = Some 1, l_username = ''alice'',
           l_ipAddress = Some ''10.0.0.1'', l_userAgent = Some ''curl'',
           l_success = True, l_message = M_login_ok\<rparr>,
        \<lparr>l_userId = Some 2, l_username = ''bob'',
           l_ipAddress = Some ''10.0.0.1'', l_userAgent = Some ''curl'',
           l_success = False, l_message = M_user_disabled\<rparr>],
      nextId = 3\<rparr>"
  by (simp add: demo_store_busy_def login_def find_user_by_name_def findFirst_user_def demo_ext_def demo_defs
          match_digits_def is_digit_def parseInt_def setHours_def getHours_def TimeClip_def new_session_def
          set_lastLoginAt_def saveLoginLog_def identity_of_def Let_def)

text \<open>
  C8. \<open>deleteUser\<close> on an absent id fails with "user not found" and leaves the store as
  it was. On an existing user, when the store does not fail, it returns the user and
  removes all sessions of that user, all login-log rows of that user and the user row,
  keeping every other row; and whatever statement of the transaction the store fails at,
  the outcome is either an error with the store unchanged or the complete deletion,
  never a part of it.
\<close>

theorem deleteUser_cascade_atomic:
  "(find_user_by_id userId st = None \<longrightarrow>
      deleteUser fault userId st = (Inl (Error M_user_not_found), st))
   \<and> (find_user_by_id userId st = Some u \<longrightarrow>
        fst (deleteUser None userId st) = Inr u
      \<and> sessions (snd (deleteUser None userId st))
          = filter (\<lambda>s. s_userId s \<noteq> userId) (sessions st)
      \<and> loginLogs (snd (deleteUser None userId st))
          = filter (\<lambda>l. l_userId l \<noteq> Some userId) (loginLogs st)
      \<and> users (snd (deleteUser None userId st))
          = filter (\<lambda>x. uid x \<noteq> userId) (users st)
      \<and> (\<forall>s \<in> set (sessions (snd (deleteUser None userId st))). s_userId s \<noteq> userId)
      \<and> (\<forall>l \<in> set (loginLogs (snd (deleteUser None userId st))). l_userId l \<noteq> Some userId)
      \<and> (\<forall>x \<in> set (users (snd (deleteUser None userId st))). uid x \<noteq> userId)
      \<and> ((\<exists>e. deleteUser fault userId st = (Inl e, st))
          \<or> deleteUser fault userId st = deleteUser None userId st))"
proof (intro conjI impI)
  assume "find_user_by_id userId st = None"
  then show "deleteUser fault userId st = (Inl (Error M_user_not_found), st)"
    by (rule deleteUser_absent)
next
  assume u: "find_user_by_id userId st = Some u"
  note full = deleteUser_present [OF u, of None]
  show "fst (deleteUser None userId st) = Inr u" by (simp add: full)
  show "sessions (snd (deleteUser None userId st))
          = filter (\<lambda>s. s_userId s \<noteq> userId) (sessions st)" by (simp add: full)
  show "loginLogs (snd (deleteUser None userId st))
          = filter (\<lambda>l. l_userId l \<noteq> Some userId) (loginLogs st)" by (simp add: full)
  show "users (snd (deleteUser None userId st))
          = filter (\<lambda>x. uid x \<noteq> userId) (users st)" by (simp add: full)
  show "\<forall>s \<in> set (sessions (snd (deleteUser None userId st))). s_userId s \<noteq> userId"
    by (simp add: full)
  show "\<forall>l \<in> set (loginLogs (snd (deleteUser None userId st))). l_userId l \<noteq> Some userId"
    by (simp add: full)
  show "\<forall>x \<in> set (users (snd (deleteUser None userId st))). uid x \<noteq> userId"
    by (simp add: full)
  show "(\<exists>e. deleteUser fault userId st = (Inl e, st))
          \<or> deleteUser fault userId st = deleteUser None userId st"
    by (simp add: deleteUser_present [OF u])
qed

theorem deleteUser_cascade_atomic_witness:
  "find_user_by_id 1 demo_store_busy = Some (alice\<lparr>lastLoginAt := Some 1000\<rparr>)
   \<and> find_user_by_id 7 demo_store_busy = None
   \<and> sessions demo_store_busy \<noteq> []
   \<and> sessions (snd (deleteUser None 1 demo_store_busy)) = []
   \<and> map l_userId (loginLogs (snd (deleteUser None 1 demo_store_busy))) = [Some 2]
   \<and> users (snd (deleteUser None 1 demo_store_busy)) = [bob]
   \<and> deleteUser (Some 2) 1 demo_store_busy
       = (Inl (Error (M_runtime ''transaction'')), demo_store_busy)
   \<and> deleteUser None 7 demo_store_busy = (Inl (Error M_user_not_found), demo_store_busy)"
proof -
  have a: "find_user_by_id 1 demo_store_busy = Some (alice\<lparr>lastLoginAt := Some 1000\<rparr>)"
    by (simp add: demo_store_busy_eq find_user_by_id_def alice_def)
  have b: "find_user_by_id 7 demo_store_busy = None"
    by (simp add: demo_store_busy_eq find_user_by_id_def alice_def bob_def)
  have c: "deleteUser (Some 2) 1 demo_store_busy
       = (Inl (Error (M_runtime ''transaction'')), demo_store_busy)"
    using a by (simp add: deleteUser_present)
  from deleteUser_cascade_atomic
         [of 1 demo_store_busy None "alice\<lparr>lastLoginAt := Some 1000\<rparr>"]
       deleteUser_cascade_atomic [of 7 demo_store_busy None] a b c
  show ?thesis
    by (simp add: demo_store_busy_eq alice_def bob_def)
qed

subsection \<open>The expiry of the session row\<close>

text \<open>
  C5. The session row of a successful login should expire at the issue time plus the
  time-to-live of the configuration. \<open>login\<close> takes the first run of digits of
  \<open>JWT_EXPIRES_IN\<close> as a number of hours, whatever unit follows: with \<open>7d\<close> (seven days
  for the token) the session row of a login at time 1000 expires seven hours later, at
  25201000, and not seven days later, at 604801000.
\<close>

theorem login_7d_session_expires_after_7_hours:
  "fst (login demo_ext cfg_7d 1000 ''alice'' ''secret1'' demo_info demo_store)
     = Inr (identity_of alice, ''jwt:1:alice'')
   \<and> map s_expiresAt
        (sessions (snd (login demo_ext cfg_7d 1000 ''alice'' ''secret1'' demo_info demo_store)))
     = [1000 + 7 * 3600000]
   \<and> (1000 + 7 * 3600000 :: int) \<noteq> 1000 + 7 * (24 * 3600000)"
  by (simp add: login_def find_user_by_name_def findFirst_user_def demo_ext_def demo_defs cfg_7d_def
          match_digits_def is_digit_def parseInt_def setHours_def getHours_def TimeClip_def new_session_def
          set_lastLoginAt_def saveLoginLog_def identity_of_def Let_def)

subsection \<open>The disabled remark in the admin update\<close>

text \<open>
  C6. An admin update that does not touch the status should leave the disabled remark
  as it is. The handler clears the remark whenever the status of the body is not
  \<open>'blocked'\<close> and the body has no remark, an absent status included: the admin carol
  changes only the nickname of the blocked user bob, and bob stays blocked with his
  remark removed.
\<close>

theorem adminUpdate_nickname_of_blocked_user:
  "find_user_by_id 2 demo_store_admin = Some bob
   \<and> status bob = ''blocked'' \<and> disabledRemark bob = Some ''spam''
   \<and> adminUpdate_route demo_ext (identity_of carol) (Some 2) nickname_only demo_store_admin
     = (Reply 200 (UserJson (bob\<lparr>nickname := Some ''bobby'', disabledRemark := None\<rparr>)),
        demo_store_admin
          \<lparr>users := [alice, bob\<lparr>nickname := Some ''bobby'', disabledRemark := None\<rparr>, carol]\<rparr>)"
  by (simp add: adminUpdate_route_def adminUpdate_body_def updateData_of_def no_update_def
       getUserInfo_def find_user_by_id_def updateUser_def apply_update_def set_opt_def
       set_field_def falsy_def falsy_field_def identity_of_def
       demo_store_admin_def nickname_only_def alice_def bob_def carol_def)

subsection \<open>Registering a username twice\<close>

text \<open>
  C7. The second registration of a username should fail with a reply that names the
  colliding field. \<open>createUser\<close> throws that error and leaves the store unchanged, but
  the \<open>catch\<close> of the register route throws a ReferenceError while it builds the reply,
  so the handler writes no reply and the collision is not reported.
\<close>

theorem register_same_username_twice:
  "register_route demo_ext dave_body demo_store = (Reply 201 (UserJson dave), demo_store_dave)
   \<and> createUser demo_ext
        \<lparr>d_username = ''dave'', d_email = ''dave@x.com'', d_password = ''secret4'',
         d_nickname = None, d_role = None, d_source = None\<rparr> demo_store_dave
       = (Inl (Error M_username_exists), demo_store_dave)
   \<and> register_route demo_ext dave_body demo_store_dave
       = (Throws ''ReferenceError: user is not defined'', demo_store_dave)"
  by (simp add: register_route_def createUser_def findFirst_user_def falsy_def or_else_def
       Let_def dave_body_def dave_def demo_store_dave_def demo_defs)

subsection \<open>Changing the password\<close>









subsection \<open>Which handler the router runs\<close>

text \<open>
  A \<open>PUT\<close> of the path \<open>/change-password\<close> is matched by the route \<open>/:id\<close>, which is
  registered before \<open>/change-password\<close>; \<open>parseInt('change-password')\<close> is \<open>NaN\<close>, so after
  the two middlewares that route answers "invalid user id", and the store stays as it
  was whatever the reply.
\<close>

lemma put_dispatch_change_password: "put_dispatch ''change-password'' = Some PUT_id"
  by (simp add: put_dispatch_def put_routes_def path_matches_def to_lower_def)

lemma put_dispatch_me: "put_dispatch ''me'' = Some PUT_me"
  by (simp add: put_dispatch_def put_routes_def path_matches_def to_lower_def)

lemma put_users_id_NaN:
  "put_users_id ext cfg now h None b st =
     (case authJWT ext cfg now st h of
        Reject c m \<Rightarrow> (Reply c (Message m), st)
      | Next u t \<Rightarrow>
          if i_role u = ''admin'' \<or> i_role u = ''superadmin''
          then (Reply 400 (Envelope 400 M_invalid_user_id), st)
          else (Reply 403 (Message M_forbidden), st))"
  by (simp add: put_users_id_def authorizeRoles_def adminUpdate_route_def
        split: auth_result.splits)

subsection \<open>The date arithmetic of the session expiry\<close>

lemma setHours_getHours:
  "setHours ext t (getHours ext t + n)
     = TimeClip (utcTime ext (localTime ext t + n * 3600000))"
proof -
  define L where "L = localTime ext t"
  have "L div 86400000 = (L div 3600000) div 24"
    using zdiv_zmult2_eq [of 24 L 3600000] by simp
  then have "L div 86400000 * 86400000 + (L div 3600000) mod 24 * 3600000 + L mod 3600000 = L"
    by presburger
  then have eq: "L div 86400000 * 86400000 + ((L div 3600000) mod 24 + n) * 3600000
               + L mod 3600000 = L + n * 3600000"
    by (simp add: algebra_simps)
  show ?thesis by (simp only: setHours_def getHours_def eq [unfolded L_def])
qed

end
